theory Spec2Isabelle
  imports Complex_Main "HOL-Library.AList" "HOL-Library.Multiset" "HOL-Library.Sublist"
begin

section \<open>Numbers\<close>

text \<open>
  A JavaScript number is a finite value, \<open>NaN\<close>, \<open>Infinity\<close> or \<open>-Infinity\<close>.
  Finite values are modelled as rationals and their arithmetic is exact: the rounding
  and the overflow of IEEE doubles are not represented, and \<open>-0\<close> is not told apart
  from \<open>0\<close>. The special values follow IEEE 754.
\<close>

datatype jsnum = Fin rat | NaN | PInf | NInf

fun js_neg :: "jsnum \<Rightarrow> jsnum" where
  "js_neg (Fin a) = Fin (- a)"
| "js_neg NaN = NaN"
| "js_neg PInf = NInf"
| "js_neg NInf = PInf"

fun js_add :: "jsnum \<Rightarrow> jsnum \<Rightarrow> jsnum" where
  "js_add (Fin a) (Fin b) = Fin (a + b)"
| "js_add NaN _ = NaN"
| "js_add _ NaN = NaN"
| "js_add PInf NInf = NaN"
| "js_add NInf PInf = NaN"
| "js_add PInf _ = PInf"
| "js_add _ PInf = PInf"
| "js_add NInf _ = NInf"
| "js_add _ NInf = NInf"

definition js_sub :: "jsnum \<Rightarrow> jsnum \<Rightarrow> jsnum" where
  "js_sub a b = js_add a (js_neg b)"

text \<open>The sign of a number: \<open>None\<close> for \<open>NaN\<close>, otherwise \<open>-1\<close>, \<open>0\<close> or \<open>1\<close>.\<close>

fun js_sign :: "jsnum \<Rightarrow> int option" where
  "js_sign (Fin a) = Some (if a < 0 then - 1 else if a = 0 then 0 else 1)"
| "js_sign NaN = None"
| "js_sign PInf = Some 1"
| "js_sign NInf = Some (- 1)"

fun js_mul :: "jsnum \<Rightarrow> jsnum \<Rightarrow> jsnum" where
  "js_mul (Fin a) (Fin b) = Fin (a * b)"
| "js_mul a b =
     (case (js_sign a, js_sign b) of
        (Some x, Some y) \<Rightarrow>
          (if x * y = 0 then NaN else if 0 < x * y then PInf else NInf)
      | _ \<Rightarrow> NaN)"

fun js_div :: "jsnum \<Rightarrow> jsnum \<Rightarrow> jsnum" where
  "js_div (Fin a) (Fin b) =
     (if b = 0 then (if a = 0 then NaN else if 0 < a then PInf else NInf)
      else Fin (a / b))"
| "js_div NaN _ = NaN"
| "js_div _ NaN = NaN"
| "js_div (Fin a) _ = Fin 0"
| "js_div PInf (Fin b) = (if b < 0 then NInf else PInf)"
| "js_div NInf (Fin b) = (if b < 0 then PInf else NInf)"
| "js_div _ _ = NaN"

text \<open>\<open>a < b\<close> on numbers; false as soon as one side is \<open>NaN\<close>.\<close>

fun js_less :: "jsnum \<Rightarrow> jsnum \<Rightarrow> bool" where
  "js_less (Fin a) (Fin b) = (a < b)"
| "js_less NaN _ = False"
| "js_less _ NaN = False"
| "js_less _ NInf = False"
| "js_less PInf _ = False"
| "js_less NInf _ = True"
| "js_less _ PInf = True"

text \<open>\<open>Math.max(a, b)\<close>: \<open>NaN\<close> as soon as one argument is \<open>NaN\<close>.\<close>

fun js_max :: "jsnum \<Rightarrow> jsnum \<Rightarrow> jsnum" where
  "js_max NaN _ = NaN"
| "js_max _ NaN = NaN"
| "js_max a b = (if js_less a b then b else a)"

text \<open>A number is falsy when it is \<open>0\<close> or \<open>NaN\<close>.\<close>

fun js_truthy :: "jsnum \<Rightarrow> bool" where
  "js_truthy (Fin a) = (a \<noteq> 0)"
| "js_truthy NaN = False"
| "js_truthy _ = True"


section \<open>Field values and coercions\<close>

text \<open>
  The value of a numeric field, as far as the source observes it: the source only
  tests such a value for \<open>undefined\<close> and \<open>null\<close> (with \<open>??\<close>) and converts it with
  \<open>Number\<close>. \<open>Num n\<close> stands for every other value, \<open>n\<close> being what \<open>Number\<close> makes
  of it: a number is itself, a numeric string is its number, any string that is not
  numeric is \<open>NaN\<close>.
\<close>

datatype jsval = Undefined | Null | Num jsnum

text \<open>\<open>v ?? 0\<close>\<close>

fun or_zero_if_nullish :: "jsval \<Rightarrow> jsval" where
  "or_zero_if_nullish Undefined = Num (Fin 0)"
| "or_zero_if_nullish Null = Num (Fin 0)"
| "or_zero_if_nullish (Num n) = Num n"

text \<open>\<open>Number(v)\<close>\<close>

fun js_Number :: "jsval \<Rightarrow> jsnum" where
  "js_Number Undefined = NaN"
| "js_Number Null = Fin 0"
| "js_Number (Num n) = n"

text \<open>\<open>n || 0\<close> on a number\<close>

definition or_zero_if_falsy :: "jsnum \<Rightarrow> jsnum" where
  "or_zero_if_falsy n = (if js_truthy n then n else Fin 0)"

text \<open>
  \<open>to2 = n => +Number(n ?? 0).toFixed(2)\<close>. \<open>toFixed(2)\<close> picks the nearest multiple of
  \<open>1/100\<close> and, of two nearest ones, the one away from zero; from \<open>10^21\<close> on, and for
  \<open>NaN\<close> and the infinities, it prints the number as it is.
\<close>

definition toFixed2 :: "rat \<Rightarrow> rat" where
  "toFixed2 x =
     (if 10 ^ 21 \<le> \<bar>x\<bar> then x
      else sgn x * (of_int \<lfloor>\<bar>x\<bar> * 100 + 1 / 2\<rfloor> / 100))"

definition to2 :: "jsval \<Rightarrow> jsnum" where
  "to2 n = (case js_Number (or_zero_if_nullish n) of Fin x \<Rightarrow> Fin (toFixed2 x) | y \<Rightarrow> y)"

section \<open>Input data\<close>

text \<open>
  The elements of the three input collections. An identifier or SKU is given by its
  property key (\<open>''undefined''\<close> when the field is absent). \<open>first_name\<close> and \<open>last_name\<close>
  are the strings that the template literal makes of the fields. \<open>items\<close> is \<open>None\<close>
  when the record has no \<open>items\<close> array.
\<close>

record seller =
  id_seller :: string
  first_name :: string
  last_name :: string

record product =
  sku :: string
  purchase_price :: jsval

record item =
  sku_item :: string
  quantity :: jsval
  discount :: jsval
  sale_price :: jsval

record purchase_record =
  seller_id_rec :: string
  total_amount :: jsval
  items :: "item list option"

text \<open>A field of \<open>data\<close>: \<open>Array.isArray\<close> holds of it or not.\<close>

datatype 'a collection = NotArray | Array "'a list"

record data =
  sellers :: "seller collection"
  products :: "product collection"
  purchase_records :: "purchase_record collection"

section \<open>Seller statistics\<close>

text \<open>
  The objects of \<open>sellerStats\<close>. Identifiers and SKUs are modelled by their property
  key, the string that JavaScript makes of the value when it indexes an object with it.
  \<open>products_sold\<close> is a plain object used as a dictionary; the list holds its own
  properties in the order of their creation.
\<close>

record seller_stat =
  id_st :: string
  name_st :: string
  revenue_st :: jsnum
  profit_st :: jsnum
  sales_count_st :: nat
  products_sold_st :: "(string \<times> jsnum) list"

section \<open>The reference bonus strategy\<close>

text \<open>
  \<open>calculateBonusByProfit(index, total, seller)\<close>. The profit of a seller statistic is
  a number, on which \<open>?? 0\<close> and \<open>Number\<close> are the identity.
\<close>

definition calculateBonusByProfit :: "int \<Rightarrow> int \<Rightarrow> seller_stat \<Rightarrow> jsnum" where
  "calculateBonusByProfit index total' seller =
     (let profit = js_max (Fin 0) (profit_st seller) in
      if index = 0 then js_mul profit (Fin (15 / 100))
      else if index = 1 \<or> index = 2 then js_mul profit (Fin (10 / 100))
      else if index = total' - 1 then Fin 0
      else js_mul profit (Fin (5 / 100)))"

text \<open>The share of the clamped profit that the strategy pays at a rank.\<close>

definition bonus_rate :: "int \<Rightarrow> int \<Rightarrow> rat" where
  "bonus_rate index total' =
     (if index = 0 then 15 / 100
      else if index = 1 \<or> index = 2 then 10 / 100
      else if index = total' - 1 then 0
      else 5 / 100)"

section \<open>The reference revenue strategy\<close>

text \<open>
  \<open>calculateSimpleRevenue(purchase, _product)\<close>. The destructuring defaults replace
  \<open>undefined\<close> only; the arithmetic operators convert their operands with \<open>Number\<close>.
\<close>

fun or_default_zero :: "jsval \<Rightarrow> jsval" where
  "or_default_zero Undefined = Num (Fin 0)"
| "or_default_zero v = v"

definition calculateSimpleRevenue :: "item \<Rightarrow> product \<Rightarrow> jsval" where
  "calculateSimpleRevenue purchase product' =
     (let discount' = js_Number (or_default_zero (discount purchase));
          sale_price' = js_Number (or_default_zero (sale_price purchase));
          quantity' = js_Number (or_default_zero (quantity purchase));
          discountFactor = js_sub (Fin 1) (js_div discount' (Fin 100))
      in Num (js_mul (js_mul sale_price' quantity') discountFactor))"

section \<open>Options\<close>

type_synonym revenue_fn = "item \<Rightarrow> product \<Rightarrow> jsval"
type_synonym bonus_fn = "int \<Rightarrow> int \<Rightarrow> seller_stat \<Rightarrow> jsval"

text \<open>
  A field of \<open>options\<close>: \<open>undefined\<close> (or absent), a value that is not a function, or a
  function. A strategy is a function that returns a value: it neither throws nor
  changes anything.
\<close>

datatype 'f option_field = FieldUndefined | NotFunction | Function 'f

text \<open>
  The \<open>options\<close> argument: \<open>null\<close> or \<open>undefined\<close>, a value whose \<open>typeof\<close> is not
  \<open>"object"\<close>, or an object with its two fields.
\<close>

datatype options = NoOptions | NotObject
  | Options (calculateRevenue: "revenue_fn option_field") (calculateBonus: "bonus_fn option_field")

section \<open>Errors\<close>

text \<open>
  The four \<open>Error\<close>s that the validation throws, in the order of the source, and the
  \<open>TypeError\<close> of the runtime. \<open>PrototypeKey\<close> is not an error of the source: the model
  stops with it where the source goes on with a member of \<open>Object.prototype\<close> in the
  place of a product or of a sold quantity, or with an index object whose prototype a
  seller named \<open>__proto__\<close> has replaced. Whatever the model returns otherwise is what the
  source does.
\<close>

datatype error = InvalidInput | OptionsNotObject | OptionsUndefined | OptionsNotFunctions
  | TypeError | PrototypeKey

section \<open>Plain objects as dictionaries\<close>

text \<open>
  \<open>sellerIndex\<close>, \<open>productIndex\<close> and every \<open>products_sold\<close> are plain objects, so a
  key that they do not own is looked up in \<open>Object.prototype\<close>, all of whose members are
  truthy.
\<close>

definition object_prototype_keys :: "string list" where
  "object_prototype_keys =
     [''constructor'', ''hasOwnProperty'', ''isPrototypeOf'', ''propertyIsEnumerable'',
      ''toLocaleString'', ''toString'', ''valueOf'', ''__proto__'',
      ''__defineGetter__'', ''__defineSetter__'', ''__lookupGetter__'', ''__lookupSetter__'']"

datatype 'a lookup = Own 'a | Inherited | Missing

definition lookup_in :: "(string \<rightharpoonup> 'a) \<Rightarrow> string \<Rightarrow> 'a lookup" where
  "lookup_in obj k =
     (case obj k of
        Some v \<Rightarrow> Own v
      | None \<Rightarrow> if k \<in> set object_prototype_keys then Inherited else Missing)"

text \<open>
  The order in which \<open>Object.entries\<close> lists the properties of an object: the keys that
  are array indices (canonical decimal numerals up to \<open>2^32 - 2\<close>) in ascending numeric
  order, then the other keys in the order of their creation.
\<close>

definition is_digit :: "char \<Rightarrow> bool" where
  "is_digit c = (48 \<le> (of_char c :: int) \<and> (of_char c :: int) \<le> 57)"

definition decimal_value :: "string \<Rightarrow> int" where
  "decimal_value s = foldl (\<lambda>n c. 10 * n + (of_char c - 48)) 0 s"

definition array_index :: "string \<Rightarrow> int option" where
  "array_index s =
     (if s \<noteq> [] \<and> list_all is_digit s \<and> (length s = 1 \<or> hd s \<noteq> CHR ''0'')
         \<and> decimal_value s \<le> 4294967294
      then Some (decimal_value s) else None)"

definition entries :: "(string \<times> 'v) list \<Rightarrow> (string \<times> 'v) list" where
  "entries obj =
     sort_key (\<lambda>p. the (array_index (fst p))) (filter (\<lambda>p. array_index (fst p) \<noteq> None) obj)
     @ filter (\<lambda>p. array_index (fst p) = None) obj"

section \<open>Sorting\<close>

text \<open>
  \<open>Array.prototype.sort\<close> with a comparator: \<open>x\<close> goes after \<open>y\<close> when \<open>cmp x y > 0\<close>,
  and a result of \<open>NaN\<close> counts as \<open>0\<close>. The sort is stable, which fixes its result
  whenever the comparator is consistent; the model is insertion from the right. (For a
  comparator that is not consistent, as \<open>b - a\<close> is in the presence of \<open>NaN\<close>, the
  language leaves the order to the implementation.)
\<close>

fun js_insert :: "('a \<Rightarrow> 'a \<Rightarrow> jsnum) \<Rightarrow> 'a \<Rightarrow> 'a list \<Rightarrow> 'a list" where
  "js_insert cmp x [] = [x]"
| "js_insert cmp x (y # ys) =
     (if js_less (Fin 0) (cmp x y) then y # js_insert cmp x ys else x # y # ys)"

definition js_sort :: "('a \<Rightarrow> 'a \<Rightarrow> jsnum) \<Rightarrow> 'a list \<Rightarrow> 'a list" where
  "js_sort cmp xs = foldr (js_insert cmp) xs []"

section \<open>The engine\<close>

subsection \<open>Statistics and indexes\<close>

text \<open>The object that \<open>data.sellers.map\<close> makes of a seller.\<close>

definition new_stat :: "seller \<Rightarrow> seller_stat" where
  "new_stat seller =
     \<lparr>id_st = id_seller seller,
      name_st = first_name seller @ '' '' @ last_name seller,
      revenue_st = Fin 0,
      profit_st = Fin 0,
      sales_count_st = 0,
      products_sold_st = []\<rparr>"

text \<open>
  \<open>sellerIndex\<close>: the \<open>reduce\<close> stores under \<open>s.id\<close> the object \<open>s\<close> of \<open>sellerStats\<close>
  itself, which the model names by its position in \<open>sellerStats\<close>; a later seller with
  the same identifier replaces an earlier one.
\<close>

definition sellerIndex_of :: "seller_stat list \<Rightarrow> (string \<rightharpoonup> nat)" where
  "sellerIndex_of sellerStats =
     foldl (\<lambda>acc (i, s). acc(id_st s \<mapsto> i)) Map.empty (enumerate 0 sellerStats)"

text \<open>\<open>productIndex\<close>: \<open>Object.fromEntries\<close> of the pairs \<open>[p.sku, p]\<close>.\<close>

definition productIndex_of :: "product list \<Rightarrow> (string \<rightharpoonup> product)" where
  "productIndex_of ps = foldl (\<lambda>acc p. acc(sku p \<mapsto> p)) Map.empty ps"

subsection \<open>Folding the purchase records\<close>

text \<open>Reading a quantity of \<open>products_sold\<close>; an absent one would add up to \<open>NaN\<close>.\<close>

definition sold_quantity :: "(string \<times> jsnum) list \<Rightarrow> string \<Rightarrow> jsnum" where
  "sold_quantity sold k = (case map_of sold k of Some q \<Rightarrow> q | None \<Rightarrow> NaN)"

text \<open>\<open>!seller.products_sold[item.sku]\<close>, for a key that \<open>Object.prototype\<close> does not have.\<close>

definition not_sold :: "(string \<times> jsnum) list \<Rightarrow> string \<Rightarrow> bool" where
  "not_sold sold k = (case map_of sold k of Some q \<Rightarrow> \<not> js_truthy q | None \<Rightarrow> True)"

text \<open>The body of \<open>record.items.forEach\<close>, on the statistic of the record's seller.\<close>

definition item_step ::
  "revenue_fn \<Rightarrow> (string \<rightharpoonup> product) \<Rightarrow> item \<Rightarrow> seller_stat \<Rightarrow> error + seller_stat" where
  "item_step calculateRevenue' productIndex item seller =
     (case lookup_in productIndex (sku_item item) of
        Missing \<Rightarrow> Inr seller
      | Inherited \<Rightarrow> Inl PrototypeKey
      | Own product' \<Rightarrow>
          let qty = js_Number (or_zero_if_nullish (quantity item));
              cost = js_mul (js_Number (purchase_price product')) qty;
              revenue = or_zero_if_falsy (js_Number (calculateRevenue' item product'));
              profit = js_sub revenue cost;
              seller1 = seller\<lparr>profit_st := js_add (profit_st seller) profit\<rparr>
          in if sku_item item \<in> set object_prototype_keys then Inl PrototypeKey
             else
               let sold = products_sold_st seller1;
                   sold1 = (if not_sold sold (sku_item item)
                            then AList.update (sku_item item) (Fin 0) sold else sold);
                   sold2 = AList.update (sku_item item)
                             (js_add (sold_quantity sold1 (sku_item item)) qty) sold1
               in Inr (seller1\<lparr>products_sold_st := sold2\<rparr>))"

fun items_forEach ::
  "revenue_fn \<Rightarrow> (string \<rightharpoonup> product) \<Rightarrow> item list \<Rightarrow> seller_stat \<Rightarrow> error + seller_stat" where
  "items_forEach calculateRevenue' productIndex [] seller = Inr seller"
| "items_forEach calculateRevenue' productIndex (item # rest) seller =
     (case item_step calculateRevenue' productIndex item seller of
        Inl e \<Rightarrow> Inl e
      | Inr seller1 \<Rightarrow> items_forEach calculateRevenue' productIndex rest seller1)"

text \<open>
  The body of \<open>data.purchase_records.forEach\<close>. When \<open>sellerIndex\<close> does not own the
  key but \<open>Object.prototype\<close> has it, \<open>seller\<close> is that member: the record is not
  skipped, the counters are written onto the member, and the first item that finds a
  product throws at \<open>seller.products_sold[item.sku]\<close>, because the member has no
  \<open>products_sold\<close>.
\<close>

definition record_step ::
  "revenue_fn \<Rightarrow> (string \<rightharpoonup> nat) \<Rightarrow> (string \<rightharpoonup> product) \<Rightarrow> purchase_record
     \<Rightarrow> seller_stat list \<Rightarrow> error + seller_stat list" where
  "record_step calculateRevenue' sellerIndex productIndex record sellerStats =
     (case lookup_in sellerIndex (seller_id_rec record) of
        Missing \<Rightarrow> Inr sellerStats
      | Inherited \<Rightarrow>
          (case items record of
             None \<Rightarrow> Inl TypeError
           | Some its \<Rightarrow>
               if list_ex (\<lambda>item. lookup_in productIndex (sku_item item) \<noteq> Missing) its
               then Inl TypeError else Inr sellerStats)
      | Own i \<Rightarrow>
          let seller = sellerStats ! i;
              seller1 = seller\<lparr>sales_count_st := sales_count_st seller + 1\<rparr>;
              checkRevenue = js_Number (or_zero_if_nullish (total_amount record));
              seller2 = seller1\<lparr>revenue_st := js_add (revenue_st seller1) checkRevenue\<rparr>
          in case items record of
               None \<Rightarrow> Inl TypeError
             | Some its \<Rightarrow>
                 (case items_forEach calculateRevenue' productIndex its seller2 of
                    Inl e \<Rightarrow> Inl e
                  | Inr seller3 \<Rightarrow> Inr (sellerStats[i := seller3])))"

fun records_forEach ::
  "revenue_fn \<Rightarrow> (string \<rightharpoonup> nat) \<Rightarrow> (string \<rightharpoonup> product) \<Rightarrow> purchase_record list
     \<Rightarrow> seller_stat list \<Rightarrow> error + seller_stat list" where
  "records_forEach calculateRevenue' sellerIndex productIndex [] sellerStats = Inr sellerStats"
| "records_forEach calculateRevenue' sellerIndex productIndex (record # rest) sellerStats =
     (case record_step calculateRevenue' sellerIndex productIndex record sellerStats of
        Inl e \<Rightarrow> Inl e
      | Inr sellerStats1 \<Rightarrow>
          records_forEach calculateRevenue' sellerIndex productIndex rest sellerStats1)"

subsection \<open>Ranking\<close>

text \<open>The comparator of \<open>sellerStats.sort\<close>: \<open>b.profit - a.profit\<close>.\<close>

definition by_profit :: "seller_stat \<Rightarrow> seller_stat \<Rightarrow> jsnum" where
  "by_profit a b = js_sub (profit_st b) (profit_st a)"

text \<open>The comparator of the product pairs: \<open>b.quantity - a.quantity\<close>.\<close>

definition by_quantity :: "string \<times> jsnum \<Rightarrow> string \<times> jsnum \<Rightarrow> jsnum" where
  "by_quantity a b = js_sub (snd b) (snd a)"

text \<open>
  A seller statistic after the second \<open>forEach\<close>, which adds \<open>bonus\<close> and
  \<open>top_products\<close>. A pair \<open>(sku, quantity)\<close> stands for the object \<open>{sku, quantity}\<close>.
\<close>

record ranked_seller =
  stat :: seller_stat
  bonus_rk :: jsval
  top_products_rk :: "(string \<times> jsnum) list"

definition top_products_of :: "seller_stat \<Rightarrow> (string \<times> jsnum) list" where
  "top_products_of seller = take 10 (js_sort by_quantity (entries (products_sold_st seller)))"

definition assign_bonus :: "bonus_fn \<Rightarrow> nat \<Rightarrow> nat \<times> seller_stat \<Rightarrow> ranked_seller" where
  "assign_bonus calculateBonus' n p =
     (case p of (index, seller) \<Rightarrow>
        \<lparr>stat = seller,
         bonus_rk = calculateBonus' (int index) (int n) seller,
         top_products_rk = top_products_of seller\<rparr>)"

subsection \<open>The report\<close>

record report_entry =
  seller_id :: string
  name :: string
  revenue :: jsnum
  profit :: jsnum
  sales_count :: nat
  top_products :: "(string \<times> jsnum) list"
  bonus :: jsnum

definition report_entry_of :: "ranked_seller \<Rightarrow> report_entry" where
  "report_entry_of seller =
     \<lparr>seller_id = id_st (stat seller),
      name = name_st (stat seller),
      revenue = to2 (Num (revenue_st (stat seller))),
      profit = to2 (Num (profit_st (stat seller))),
      sales_count = sales_count_st (stat seller),
      top_products = top_products_rk seller,
      bonus = to2 (bonus_rk seller)\<rparr>"

subsection \<open>analyzeSalesData\<close>

text \<open>
  The statistics after the fold and the in-place sort, for collections and strategies
  that have passed the validation.
\<close>

definition fold_stats ::
  "revenue_fn \<Rightarrow> seller list \<Rightarrow> product list \<Rightarrow> purchase_record list
     \<Rightarrow> error + seller_stat list" where
  "fold_stats calculateRevenue' ss ps rs =
     (let sellerStats = map new_stat ss in
      if list_ex (\<lambda>s. id_st s = ''__proto__'') sellerStats then Inl PrototypeKey
      else records_forEach calculateRevenue' (sellerIndex_of sellerStats) (productIndex_of ps)
             rs sellerStats)"

definition ranked_stats ::
  "revenue_fn \<Rightarrow> seller list \<Rightarrow> product list \<Rightarrow> purchase_record list
     \<Rightarrow> error + seller_stat list" where
  "ranked_stats calculateRevenue' ss ps rs =
     (case fold_stats calculateRevenue' ss ps rs of
        Inl e \<Rightarrow> Inl e
      | Inr sellerStats \<Rightarrow> Inr (js_sort by_profit sellerStats))"

definition make_report :: "bonus_fn \<Rightarrow> seller_stat list \<Rightarrow> report_entry list" where
  "make_report calculateBonus' sellerStats =
     map report_entry_of
       (map (assign_bonus calculateBonus' (length sellerStats)) (enumerate 0 sellerStats))"

text \<open>
  \<open>analyzeSalesData(data, options)\<close>. \<open>data\<close> is \<open>None\<close> when the argument is falsy.
\<close>

definition analyzeSalesData :: "data option \<Rightarrow> options \<Rightarrow> error + report_entry list" where
  "analyzeSalesData data' options' =
     (case data' of
        None \<Rightarrow> Inl InvalidInput
      | Some d \<Rightarrow>
          (case (sellers d, products d, purchase_records d) of
             (Array ss, Array ps, Array rs) \<Rightarrow>
               if ss = [] \<or> ps = [] \<or> rs = [] then Inl InvalidInput
               else
                 (case options' of
                    NoOptions \<Rightarrow> Inl OptionsNotObject
                  | NotObject \<Rightarrow> Inl OptionsNotObject
                  | Options FieldUndefined _ \<Rightarrow> Inl OptionsUndefined
                  | Options _ FieldUndefined \<Rightarrow> Inl OptionsUndefined
                  | Options (Function calculateRevenue') (Function calculateBonus') \<Rightarrow>
                      (case ranked_stats calculateRevenue' ss ps rs of
                         Inl e \<Rightarrow> Inl e
                       | Inr sellerStats \<Rightarrow> Inr (make_report calculateBonus' sellerStats))
                  | Options _ _ \<Rightarrow> Inl OptionsNotFunctions)
           | _ \<Rightarrow> Inl InvalidInput))"


section \<open>Notions used in the statements\<close>

text \<open>The sum of a list of numbers, from the right.\<close>

definition js_sum :: "jsnum list \<Rightarrow> jsnum" where
  "js_sum xs = foldr js_add xs (Fin 0)"





text \<open>
  The two error conditions in the words of the specification. (a) The input is invalid
  when the data object is missing, or one of \<open>sellers\<close>, \<open>products\<close> and
  \<open>purchase_records\<close> is absent, not a sequence, or empty.
\<close>

fun missing_or_empty :: "'a collection \<Rightarrow> bool" where
  "missing_or_empty NotArray = True"
| "missing_or_empty (Array xs) = (xs = [])"

definition invalid_input :: "data option \<Rightarrow> bool" where
  "invalid_input data' =
     (case data' of
        None \<Rightarrow> True
      | Some d \<Rightarrow> missing_or_empty (sellers d) \<or> missing_or_empty (products d)
          \<or> missing_or_empty (purchase_records d))"

text \<open>
  (b) The configuration is invalid when the options object is missing or not an object,
  or one of \<open>calculateRevenue\<close> and \<open>calculateBonus\<close> is absent or not callable.
\<close>

fun callable :: "'f option_field \<Rightarrow> bool" where
  "callable (Function f) = True"
| "callable _ = False"

definition invalid_configuration :: "options \<Rightarrow> bool" where
  "invalid_configuration options' =
     (case options' of
        NoOptions \<Rightarrow> True
      | NotObject \<Rightarrow> True
      | Options cr cb \<Rightarrow> \<not> callable cr \<or> \<not> callable cb)"

text \<open>The elements of a collection; none when it is not an array.\<close>

fun the_elements :: "'a collection \<Rightarrow> 'a list" where
  "the_elements NotArray = []"
| "the_elements (Array xs) = xs"

text \<open>
  A plain key is one that \<open>Object.prototype\<close> does not have. The keys of a data object
  are plain when the identifiers of its sellers, the \<open>seller_id\<close> of its purchase
  records and the SKUs of their items are.
\<close>

definition plain_key :: "string \<Rightarrow> bool" where
  "plain_key k = (k \<notin> set object_prototype_keys)"

definition plain_items :: "purchase_record \<Rightarrow> bool" where
  "plain_items r = (case items r of None \<Rightarrow> True | Some its \<Rightarrow> list_all (\<lambda>it. plain_key (sku_item it)) its)"

definition plain_keys :: "data \<Rightarrow> bool" where
  "plain_keys d =
     (list_all (\<lambda>s. plain_key (id_seller s)) (the_elements (sellers d))
      \<and> list_all (\<lambda>r. plain_key (seller_id_rec r) \<and> plain_items r)
            (the_elements (purchase_records d)))"

text \<open>Some purchase record of a seller of the input has no \<open>items\<close> array.\<close>

definition record_without_items :: "data \<Rightarrow> bool" where
  "record_without_items d =
     list_ex (\<lambda>r. seller_id_rec r \<in> id_seller ` set (the_elements (sellers d)) \<and> items r = None)
       (the_elements (purchase_records d))"

section \<open>The reference options and a scenario\<close>

text \<open>The options that pass the two reference strategies.\<close>

definition reference_options :: options where
  "reference_options =
     Options (Function calculateSimpleRevenue)
       (Function (\<lambda>index total' seller. Num (calculateBonusByProfit index total' seller)))"

text \<open>
  Two sellers, one product and one purchase record of the first seller: two units of
  the product at 20, no discount, bought at 5, on a receipt of 100.
\<close>

definition scenario_sellers :: "seller list" where
  "scenario_sellers =
     [\<lparr>id_seller = ''s1'', first_name = ''Ann'', last_name = ''Lee''\<rparr>,
      \<lparr>id_seller = ''s2'', first_name = ''Bob'', last_name = ''Ray''\<rparr>]"

definition scenario_products :: "product list" where
  "scenario_products = [\<lparr>sku = ''A'', purchase_price = Num (Fin 5)\<rparr>]"




text \<open>
  Three sellers and four purchase records: two of seller \<open>b\<close>, the second with an item
  of an unknown SKU, one of an unknown seller, and one of seller \<open>c\<close> without items.
\<close>

definition shop_sellers :: "seller list" where
  "shop_sellers =
     [\<lparr>id_seller = ''a'', first_name = ''Ann'', last_name = ''Lee''\<rparr>,
      \<lparr>id_seller = ''b'', first_name = ''Bob'', last_name = ''Ray''\<rparr>,
      \<lparr>id_seller = ''c'', first_name = ''Cy'', last_name = ''Orr''\<rparr>]"

definition shop_products :: "product list" where
  "shop_products = [\<lparr>sku = ''A'', purchase_price = Num (Fin 5)\<rparr>]"

definition shop_records :: "purchase_record list" where
  "shop_records =
     [\<lparr>seller_id_rec = ''b'', total_amount = Num (Fin 100),
       items = Some [\<lparr>sku_item = ''A'', quantity = Num (Fin 2), discount = Num (Fin 0),
                      sale_price = Num (Fin 20)\<rparr>]\<rparr>,
      \<lparr>seller_id_rec = ''x9'', total_amount = Num (Fin 7),
       items = Some [\<lparr>sku_item = ''A'', quantity = Num (Fin 1), discount = Num (Fin 0),
                      sale_price = Num (Fin 20)\<rparr>]\<rparr>,
      \<lparr>seller_id_rec = ''b'', total_amount = Num (Fin 50),
       items = Some [\<lparr>sku_item = ''Z'', quantity = Num (Fin 4), discount = Num (Fin 0),
                      sale_price = Num (Fin 9)\<rparr>]\<rparr>,
      \<lparr>seller_id_rec = ''c'', total_amount = Num (Fin 10), items = Some []\<rparr>]"

definition shop_data :: data where
  "shop_data =
     \<lparr>sellers = Array shop_sellers, products = Array shop_products,
      purchase_records = Array shop_records\<rparr>"




definition numeric_sku_folded :: "seller_stat list" where
  "numeric_sku_folded =
     [\<lparr>id_st = ''s1'', name_st = ''Ann Lee'', revenue_st = Fin 30, profit_st = Fin 20,
       sales_count_st = 1, products_sold_st = [(''2'', Fin 5), (''1'', Fin 5)]\<rparr>]"

definition numeric_sku_report :: "report_entry list" where
  "numeric_sku_report =
     [\<lparr>seller_id = ''s1'', name = ''Ann Lee'', revenue = Fin 30, profit = Fin 20,
       sales_count = 1, top_products = [(''1'', Fin 5), (''2'', Fin 5)], bonus = Fin 3\<rparr>]"


text \<open>The first scenario with a purchase record that has no \<open>items\<close>.\<close>

definition itemless_data :: data where
  "itemless_data =
     \<lparr>sellers = Array scenario_sellers, products = Array scenario_products,
      purchase_records = Array
        [\<lparr>seller_id_rec = ''s1'', total_amount = Num (Fin 100), items = None\<rparr>]\<rparr>"

text \<open>
  The first scenario with the purchase record credited to \<open>toString\<close>, which is no
  seller of the input.
\<close>

definition prototype_key_data :: data where
  "prototype_key_data =
     \<lparr>sellers = Array scenario_sellers, products = Array scenario_products,
      purchase_records = Array
        [\<lparr>seller_id_rec = ''toString'', total_amount = Num (Fin 100),
          items = Some [\<lparr>sku_item = ''A'', quantity = Num (Fin 2), discount = Num (Fin 0),
                         sale_price = Num (Fin 20)\<rparr>]\<rparr>]\<rparr>"

section \<open>The engine on a store\<close>

text \<open>
  The functions above pass values. To tell what a call does to the objects of its
  caller, the same source is also read over a store: a list of objects, an address being
  a position in it, a reference being an address, and a new object going to the end.
  The members of \<open>Object.prototype\<close> are not in the store.
\<close>

type_synonym addr = nat

text \<open>
  The objects: the \<open>data\<close> object with its three fields (\<open>None\<close> for a field that
  holds no reference), an array of references, the objects of the three collections
  (a purchase record refers to its \<open>items\<close>), and the objects that the engine makes: a
  seller statistic, which the second \<open>forEach\<close> turns into a ranked seller.
\<close>

datatype cell =
    DataObject "addr option" "addr option" "addr option"
  | ArrayObject "addr list"
  | SellerObject seller
  | ProductObject product
  | ItemObject item
  | RecordObject string jsval "addr option"
  | StatObject seller_stat
  | RankedObject ranked_seller

type_synonym store = "cell list"

definition cell_at :: "store \<Rightarrow> addr \<Rightarrow> cell option" where
  "cell_at h a = (if a < length h then Some (h ! a) else None)"

definition array_at :: "store \<Rightarrow> addr \<Rightarrow> addr list option" where
  "array_at h a = (case cell_at h a of Some (ArrayObject refs) \<Rightarrow> Some refs | _ \<Rightarrow> None)"






text \<open>\<open>Array.isArray\<close> of a field, and the references of the array.\<close>

definition field_array :: "store \<Rightarrow> addr option \<Rightarrow> addr list option" where
  "field_array h field = (case field of None \<Rightarrow> None | Some a \<Rightarrow> array_at h a)"


















text \<open>The store of the engine: the store of the caller, the statistics, and their array.\<close>

definition st_heap :: "store \<Rightarrow> seller_stat list \<Rightarrow> addr list \<Rightarrow> store" where
  "st_heap h0 sts refs = h0 @ map StatObject sts @ [ArrayObject refs]"








section \<open>The indexes\<close>

lemma sellerIndex_of_snoc:
  "sellerIndex_of (xs @ [x]) = (sellerIndex_of xs)(id_st x \<mapsto> length xs)"
  by (simp add: sellerIndex_of_def enumerate_append_eq del: fun_upd_apply)

lemma sellerIndex_of_Nil: "sellerIndex_of [] = Map.empty"
  by (simp add: sellerIndex_of_def)


lemma sellerIndex_of_None:
  "(sellerIndex_of sellerStats k = None) = (k \<notin> id_st ` set sellerStats)"
  by (induction sellerStats rule: rev_induct) (auto simp: sellerIndex_of_snoc sellerIndex_of_Nil)

lemma productIndex_of_snoc: "productIndex_of (ps @ [p]) = (productIndex_of ps)(sku p \<mapsto> p)"
  by (simp add: productIndex_of_def del: fun_upd_apply)

lemma productIndex_of_Nil: "productIndex_of [] = Map.empty"
  by (simp add: productIndex_of_def)


lemma productIndex_of_None:
  "(productIndex_of ps k = None) = (k \<notin> sku ` set ps)"
  by (induction ps rule: rev_induct) (auto simp: productIndex_of_snoc productIndex_of_Nil)

section \<open>The fold\<close>




lemma js_sum_simps [simp]: "js_sum [] = Fin 0" "js_sum (x # xs) = js_add x (js_sum xs)"
  by (simp_all add: js_sum_def)






lemma lookup_in_not_Own: "m k = None \<Longrightarrow> lookup_in m k \<noteq> Own v"
  by (simp add: lookup_in_def)







section \<open>The sort\<close>















section \<open>From the fold to the report\<close>












section \<open>Sums of revenue\<close>






section \<open>The entries of an object\<close>



lemma length_entries: "length (entries obj) = length obj"
proof -
  have "length (entries obj) = length (filter (\<lambda>p. array_index (fst p) \<noteq> None) obj)
      + length (filter (\<lambda>p. \<not> array_index (fst p) \<noteq> None) obj)"
    by (simp add: entries_def)
  then show ?thesis by (simp only: sum_length_filter_compl)
qed

text \<open>
  The keys of \<open>products_sold\<close> are in the order in which the fold first records them:
  an item of a known product leaves them as they are when its SKU is among them, and
  puts its SKU at their end when it is not.
\<close>

lemma item_step_keys:
  assumes "item_step f pidx it s = Inr s'" and "pidx (sku_item it) = Some p"
  shows "map fst (products_sold_st s') =
           (if sku_item it \<in> set (map fst (products_sold_st s)) then map fst (products_sold_st s)
            else map fst (products_sold_st s) @ [sku_item it])"
proof -
  from assms obtain v w where
    "products_sold_st s' = AList.update (sku_item it) v (products_sold_st s)
     \<or> products_sold_st s' =
         AList.update (sku_item it) v (AList.update (sku_item it) w (products_sold_st s))"
    by (auto simp: item_step_def lookup_in_def Let_def split: if_splits)
  then show ?thesis
    by (auto simp: update_keys)
qed

section \<open>Finite numbers\<close>











section \<open>Validation and failures of the fold\<close>

lemma not_missing_or_empty: "(\<not> missing_or_empty c) = (\<exists>xs. c = Array xs \<and> xs \<noteq> [])"
  by (cases c) auto

lemma callable_iff: "callable c = (\<exists>f. c = Function f)"
  by (cases c) auto

lemma analyzeSalesData_invalid_input:
  "invalid_input data' \<Longrightarrow> analyzeSalesData data' options' = Inl InvalidInput"
  by (auto simp: invalid_input_def analyzeSalesData_def
      split: option.splits collection.splits elim: missing_or_empty.elims)

lemma valid_input:
  "\<not> invalid_input data' \<Longrightarrow>
     \<exists>d ss ps rs. data' = Some d \<and> sellers d = Array ss \<and> products d = Array ps
        \<and> purchase_records d = Array rs \<and> ss \<noteq> [] \<and> ps \<noteq> [] \<and> rs \<noteq> []"
  by (auto simp: invalid_input_def not_missing_or_empty split: option.splits)

lemma analyzeSalesData_invalid_configuration:
  assumes "\<not> invalid_input data'" and "invalid_configuration options'"
  shows "analyzeSalesData data' options'
           \<in> {Inl OptionsNotObject, Inl OptionsUndefined, Inl OptionsNotFunctions}"
proof -
  from valid_input [OF assms(1)] obtain d ss ps rs where
    "data' = Some d" "sellers d = Array ss" "products d = Array ps"
    "purchase_records d = Array rs" "ss \<noteq> []" "ps \<noteq> []" "rs \<noteq> []" by blast
  with assms(2) show ?thesis
    by (auto simp: analyzeSalesData_def invalid_configuration_def
        split: options.splits option_field.splits)
qed

lemma analyzeSalesData_valid:
  assumes "\<not> invalid_input data'" and "\<not> invalid_configuration options'"
  shows "\<exists>d ss ps rs f g. data' = Some d \<and> sellers d = Array ss \<and> products d = Array ps
        \<and> purchase_records d = Array rs \<and> options' = Options (Function f) (Function g)
        \<and> analyzeSalesData data' options' =
            (case fold_stats f ss ps rs of
               Inl e \<Rightarrow> Inl e
             | Inr folded \<Rightarrow> Inr (make_report g (js_sort by_profit folded)))"
proof -
  from valid_input [OF assms(1)] obtain d ss ps rs where
    d: "data' = Some d" "sellers d = Array ss" "products d = Array ps"
    "purchase_records d = Array rs" "ss \<noteq> []" "ps \<noteq> []" "rs \<noteq> []" by blast
  from assms(2) obtain f g where o: "options' = Options (Function f) (Function g)"
    by (auto simp: invalid_configuration_def callable_iff split: options.splits)
  from d o have "analyzeSalesData data' options' =
            (case fold_stats f ss ps rs of
               Inl e \<Rightarrow> Inl e
             | Inr folded \<Rightarrow> Inr (make_report g (js_sort by_profit folded)))"
    by (simp add: analyzeSalesData_def ranked_stats_def split: sum.splits)
  with d o show ?thesis by blast
qed

text \<open>The fold fails with a \<open>TypeError\<close> or stops at a prototype key, and in no other way.\<close>

lemma item_step_errors: "item_step f pidx it s = Inl e \<Longrightarrow> e = PrototypeKey"
  by (auto simp: item_step_def Let_def split: lookup.splits if_splits)

lemma items_forEach_errors: "items_forEach f pidx its s = Inl e \<Longrightarrow> e = PrototypeKey"
  by (induction its arbitrary: s) (auto split: sum.splits dest: item_step_errors)

lemma record_step_errors:
  "record_step f sidx pidx r stats = Inl e \<Longrightarrow> e = TypeError \<or> e = PrototypeKey"
  by (auto simp: record_step_def Let_def split: lookup.splits option.splits if_splits sum.splits
      dest: items_forEach_errors)

lemma records_forEach_errors:
  "records_forEach f sidx pidx rs stats = Inl e \<Longrightarrow> e = TypeError \<or> e = PrototypeKey"
  by (induction rs arbitrary: stats) (auto split: sum.splits dest: record_step_errors)

lemma fold_stats_errors:
  "fold_stats f ss ps rs = Inl e \<Longrightarrow> e = TypeError \<or> e = PrototypeKey"
  by (auto simp: fold_stats_def Let_def split: if_splits dest: records_forEach_errors)

text \<open>With plain keys the fold fails only at a record of a known seller without items.\<close>

lemma item_step_plain:
  "plain_key (sku_item it) \<Longrightarrow> \<exists>s'. item_step f pidx it s = Inr s'"
  by (auto simp: item_step_def plain_key_def lookup_in_def Let_def split: option.splits)

lemma items_forEach_plain:
  "list_all (\<lambda>it. plain_key (sku_item it)) its \<Longrightarrow> \<exists>s'. items_forEach f pidx its s = Inr s'"
proof (induction its arbitrary: s)
  case Nil
  then show ?case by simp
next
  case (Cons it its)
  then obtain s1 where "item_step f pidx it s = Inr s1"
    using item_step_plain [of it f pidx s] by auto
  with Cons show ?case by simp
qed

lemma record_step_plain:
  assumes "plain_key (seller_id_rec r)" and "plain_items r"
  shows "if sidx (seller_id_rec r) \<noteq> None \<and> items r = None
         then record_step f sidx pidx r stats = Inl TypeError
         else \<exists>stats'. record_step f sidx pidx r stats = Inr stats'"
proof (cases "sidx (seller_id_rec r)")
  case None
  with assms(1) show ?thesis
    by (simp add: record_step_def lookup_in_def plain_key_def)
next
  case (Some i)
  show ?thesis
  proof (cases "items r")
    case None
    with Some show ?thesis by (simp add: record_step_def lookup_in_def Let_def)
  next
    case (Some its)
    with assms(2) have "list_all (\<lambda>it. plain_key (sku_item it)) its"
      by (simp add: plain_items_def)
    from items_forEach_plain [OF this] Some \<open>sidx (seller_id_rec r) = Some i\<close>
    show ?thesis
      by (simp add: record_step_def lookup_in_def Let_def split: sum.splits) (metis sum.exhaust_sel sumE old.sum.simps(5) Inl_Inr_False)
  qed
qed

lemma records_forEach_plain:
  "list_all (\<lambda>r. plain_key (seller_id_rec r) \<and> plain_items r) rs \<Longrightarrow>
     (if list_ex (\<lambda>r. sidx (seller_id_rec r) \<noteq> None \<and> items r = None) rs
      then records_forEach f sidx pidx rs stats = Inl TypeError
      else \<exists>stats'. records_forEach f sidx pidx rs stats = Inr stats')"
proof (induction rs arbitrary: stats)
  case Nil
  then show ?case by simp
next
  case (Cons r rs)
  then have r: "plain_key (seller_id_rec r)" "plain_items r"
    and rs: "list_all (\<lambda>r. plain_key (seller_id_rec r) \<and> plain_items r) rs" by simp_all
  show ?case
  proof (cases "sidx (seller_id_rec r) \<noteq> None \<and> items r = None")
    case True
    with record_step_plain [OF r, of sidx f pidx stats] show ?thesis by simp
  next
    case False
    with record_step_plain [OF r, of sidx f pidx stats] obtain stats1 where
      1: "record_step f sidx pidx r stats = Inr stats1" by auto
    from Cons.IH [OF rs, of stats1] 1 False show ?thesis by auto
  qed
qed

lemma sellerIndex_of_new_stats:
  "(sellerIndex_of (map new_stat ss) k \<noteq> None) = (k \<in> id_seller ` set ss)"
  by (simp add: sellerIndex_of_None image_comp) (simp add: new_stat_def comp_def)

lemma proto_is_prototype_key: "\<not> plain_key ''__proto__''"
  by (simp add: plain_key_def object_prototype_keys_def)

lemma fold_stats_plain:
  assumes "list_all (\<lambda>s. plain_key (id_seller s)) ss"
    and "list_all (\<lambda>r. plain_key (seller_id_rec r) \<and> plain_items r) rs"
  shows "if list_ex (\<lambda>r. seller_id_rec r \<in> id_seller ` set ss \<and> items r = None) rs
         then fold_stats f ss ps rs = Inl TypeError
         else \<exists>folded. fold_stats f ss ps rs = Inr folded"
proof -
  have "\<not> list_ex (\<lambda>s. id_st s = ''__proto__'') (map new_stat ss)"
    using assms(1) proto_is_prototype_key
    by (auto simp: list_ex_iff list_all_iff new_stat_def)
  then have "fold_stats f ss ps rs =
      records_forEach f (sellerIndex_of (map new_stat ss)) (productIndex_of ps) rs (map new_stat ss)"
    by (simp add: fold_stats_def Let_def)
  with records_forEach_plain [OF assms(2), of "sellerIndex_of (map new_stat ss)" f
      "productIndex_of ps" "map new_stat ss"]
  show ?thesis by (simp only: sellerIndex_of_new_stats)
qed

text \<open>
  What the fold does with a record of an unknown seller and with an item of an unknown
  product, when the key is plain: nothing.
\<close>

lemma record_step_skips_unknown_seller:
  "sidx (seller_id_rec r) = None \<Longrightarrow> plain_key (seller_id_rec r) \<Longrightarrow>
     record_step f sidx pidx r stats = Inr stats"
  by (simp add: record_step_def lookup_in_def plain_key_def)

lemma item_step_skips_unknown_sku:
  "pidx (sku_item it) = None \<Longrightarrow> plain_key (sku_item it) \<Longrightarrow>
     item_step f pidx it s = Inr s"
  by (simp add: item_step_def lookup_in_def plain_key_def)

lemma items_forEach_skips_unknown_sku:
  "pidx (sku_item it) = None \<Longrightarrow> plain_key (sku_item it) \<Longrightarrow>
     items_forEach f pidx (it # its) s = items_forEach f pidx its s"
  by (simp add: item_step_skips_unknown_sku)

section \<open>The engine on a store and the engine on values\<close>

lemma cell_at_Some: "cell_at h a = Some c \<Longrightarrow> a < length h \<and> h ! a = c"
  by (auto simp: cell_at_def split: if_splits)

lemma cell_at_prefix: "prefix h h' \<Longrightarrow> cell_at h a = Some c \<Longrightarrow> cell_at h' a = Some c"
  by (auto simp: cell_at_def prefix_def nth_append split: if_splits)

lemma array_at_prefix: "prefix h h' \<Longrightarrow> array_at h a = Some refs \<Longrightarrow> array_at h' a = Some refs"
  by (auto simp: array_at_def split: option.splits cell.splits dest: cell_at_prefix)




lemma field_array_prefix:
  "prefix h h' \<Longrightarrow> field_array h f = Some refs \<Longrightarrow> field_array h' f = Some refs"
  by (auto simp: field_array_def split: option.splits dest: array_at_prefix)






lemma length_st_heap: "length (st_heap h0 sts refs) = length h0 + length sts + 1"
  by (simp add: st_heap_def)

















































section \<open>Properties of the bonus strategy\<close>

lemma js_max_zero_Fin: "js_max (Fin 0) (Fin q) = Fin (max 0 q)"
  by (simp add: max_def)

text \<open>
  C1, as the code has it. For a seller with a finite profit \<open>q\<close> the bonus is a share
  of \<open>max 0 q\<close>: 15% at index 0 whatever the total (so also for a lone seller), 10% at
  index 1 and at index 2 whatever the total (so also when that index is the last one),
  0 at the last index \<open>total - 1\<close> when that index is 3 or more, and 5% at every other
  index. The bonus is never negative, and it is 0 when the profit is negative.
\<close>

theorem calculateBonusByProfit_rates:
  assumes "profit_st seller = Fin q"
  shows "calculateBonusByProfit index total' seller = Fin (bonus_rate index total' * max 0 q)
    \<and> (index = 0 \<longrightarrow> calculateBonusByProfit index total' seller = Fin (15 / 100 * max 0 q))
    \<and> (index = 1 \<or> index = 2 \<longrightarrow>
          calculateBonusByProfit index total' seller = Fin (10 / 100 * max 0 q))
    \<and> (index \<notin> {0, 1, 2} \<and> index = total' - 1 \<longrightarrow>
          calculateBonusByProfit index total' seller = Fin 0)
    \<and> (index \<notin> {0, 1, 2} \<and> index \<noteq> total' - 1 \<longrightarrow>
          calculateBonusByProfit index total' seller = Fin (5 / 100 * max 0 q))
    \<and> 0 \<le> bonus_rate index total' * max 0 q
    \<and> (q \<le> 0 \<longrightarrow> calculateBonusByProfit index total' seller = Fin 0)"
proof -
  have r: "0 \<le> bonus_rate index total'"
    by (simp add: bonus_rate_def)
  have "0 \<le> bonus_rate index total' * max 0 q"
    using r by (simp add: mult_nonneg_nonneg)
  then show ?thesis
    using assms
    by (simp add: calculateBonusByProfit_def bonus_rate_def js_max_zero_Fin Let_def max_def)
qed

theorem calculateBonusByProfit_rates_witness:
  "calculateBonusByProfit 1 2
     \<lparr>id_st = ''s2'', name_st = ''B B'', revenue_st = Fin 100, profit_st = Fin 30,
      sales_count_st = 1, products_sold_st = []\<rparr> = Fin 3
   \<and> calculateBonusByProfit 0 1
     \<lparr>id_st = ''s1'', name_st = ''A A'', revenue_st = Fin 100, profit_st = Fin 30,
      sales_count_st = 1, products_sold_st = []\<rparr> = Fin (9 / 2)
   \<and> calculateBonusByProfit 3 4
     \<lparr>id_st = ''s4'', name_st = ''D D'', revenue_st = Fin 100, profit_st = Fin 30,
      sales_count_st = 1, products_sold_st = []\<rparr> = Fin 0
   \<and> calculateBonusByProfit 3 5
     \<lparr>id_st = ''s4'', name_st = ''D D'', revenue_st = Fin 100, profit_st = Fin (- 30),
      sales_count_st = 1, products_sold_st = []\<rparr> = Fin 0"
  using calculateBonusByProfit_rates
      [of "\<lparr>id_st = ''s2'', name_st = ''B B'', revenue_st = Fin 100, profit_st = Fin 30,
           sales_count_st = 1, products_sold_st = []\<rparr>" 30 1 2]
    calculateBonusByProfit_rates
      [of "\<lparr>id_st = ''s1'', name_st = ''A A'', revenue_st = Fin 100, profit_st = Fin 30,
           sales_count_st = 1, products_sold_st = []\<rparr>" 30 0 1]
    calculateBonusByProfit_rates
      [of "\<lparr>id_st = ''s4'', name_st = ''D D'', revenue_st = Fin 100, profit_st = Fin 30,
           sales_count_st = 1, products_sold_st = []\<rparr>" 30 3 4]
    calculateBonusByProfit_rates
      [of "\<lparr>id_st = ''s4'', name_st = ''D D'', revenue_st = Fin 100, profit_st = Fin (- 30),
           sales_count_st = 1, products_sold_st = []\<rparr>" "- 30" 3 5]
  by (simp add: bonus_rate_def)

text \<open>
  C1, as the claim has it, fails: of two sellers, the one at index 1 is the last, and
  with a profit of 30 the bonus is 3, not 0. The rule for the second and third place is
  tested before the rule for the last place.
\<close>

theorem calculateBonusByProfit_last_of_two:
  "calculateBonusByProfit 1 2
     \<lparr>id_st = ''s2'', name_st = ''B B'', revenue_st = Fin 100, profit_st = Fin 30,
      sales_count_st = 1, products_sold_st = []\<rparr> \<noteq> Fin 0"
  by (simp add: calculateBonusByProfit_def)

section \<open>Finite revenue and profit\<close>




section \<open>Errors\<close>

text \<open>
  C3, as the code has it. \<open>analyzeSalesData\<close> throws its error for invalid input
  exactly when the input is invalid (a), and one of its three errors for invalid
  options exactly when the input is valid and the configuration is invalid (b); both
  before anything is processed. For valid input and valid configuration with plain keys,
  the fold aborts with a \<open>TypeError\<close> when some purchase record of a seller of the input
  has no \<open>items\<close> array, and otherwise the report is produced.
\<close>

theorem analyzeSalesData_errors:
  "((analyzeSalesData data' options' = Inl InvalidInput) = invalid_input data')
   \<and> ((analyzeSalesData data' options'
          \<in> {Inl OptionsNotObject, Inl OptionsUndefined, Inl OptionsNotFunctions})
        = (\<not> invalid_input data' \<and> invalid_configuration options'))
   \<and> (\<forall>d. data' = Some d \<and> \<not> invalid_input data' \<and> \<not> invalid_configuration options'
          \<and> plain_keys d \<longrightarrow>
          (if record_without_items d then analyzeSalesData data' options' = Inl TypeError
           else \<exists>report. analyzeSalesData data' options' = Inr report))"
proof -
  have valid: "\<exists>e. analyzeSalesData data' options' = Inr e
      \<or> analyzeSalesData data' options' = Inl TypeError
      \<or> analyzeSalesData data' options' = Inl PrototypeKey"
    if "\<not> invalid_input data'" "\<not> invalid_configuration options'"
  proof -
    from analyzeSalesData_valid [OF that] obtain ss ps rs f g where
      "analyzeSalesData data' options' =
            (case fold_stats f ss ps rs of
               Inl e \<Rightarrow> Inl e
             | Inr folded \<Rightarrow> Inr (make_report g (js_sort by_profit folded)))" by blast
    then show ?thesis
      using fold_stats_errors [of f ss ps rs] by (cases "fold_stats f ss ps rs") auto
  qed
  have 1: "(analyzeSalesData data' options' = Inl InvalidInput) = invalid_input data'"
  proof (cases "invalid_input data'")
    case True
    then show ?thesis by (simp add: analyzeSalesData_invalid_input)
  next
    case False
    show ?thesis
    proof (cases "invalid_configuration options'")
      case True
      with False analyzeSalesData_invalid_configuration [OF False True] show ?thesis by auto
    next
      case c: False
      with False valid show ?thesis by auto
    qed
  qed
  have 2: "(analyzeSalesData data' options'
          \<in> {Inl OptionsNotObject, Inl OptionsUndefined, Inl OptionsNotFunctions})
        = (\<not> invalid_input data' \<and> invalid_configuration options')"
  proof (cases "invalid_input data'")
    case True
    then show ?thesis by (simp add: analyzeSalesData_invalid_input)
  next
    case False
    show ?thesis
    proof (cases "invalid_configuration options'")
      case True
      with False analyzeSalesData_invalid_configuration [OF False True] show ?thesis by simp
    next
      case c: False
      with False valid show ?thesis by auto
    qed
  qed
  have 3: "if record_without_items d then analyzeSalesData data' options' = Inl TypeError
           else \<exists>report. analyzeSalesData data' options' = Inr report"
    if d: "data' = Some d" and v: "\<not> invalid_input data'" "\<not> invalid_configuration options'"
      and p: "plain_keys d" for d
  proof -
    from analyzeSalesData_valid [OF v] d obtain ss ps rs f g where
      c: "sellers d = Array ss" "products d = Array ps" "purchase_records d = Array rs"
      and a: "analyzeSalesData data' options' =
            (case fold_stats f ss ps rs of
               Inl e \<Rightarrow> Inl e
             | Inr folded \<Rightarrow> Inr (make_report g (js_sort by_profit folded)))" by auto
    from p c have "list_all (\<lambda>s. plain_key (id_seller s)) ss"
      "list_all (\<lambda>r. plain_key (seller_id_rec r) \<and> plain_items r) rs"
      by (simp_all add: plain_keys_def)
    from fold_stats_plain [OF this, of f ps] a c show ?thesis
      by (auto simp: record_without_items_def)
  qed
  from 1 2 3 show ?thesis by blast
qed

theorem analyzeSalesData_errors_witness:
  "\<not> invalid_input (Some shop_data) \<and> \<not> invalid_configuration reference_options
   \<and> plain_keys shop_data \<and> \<not> record_without_items shop_data
   \<and> (\<exists>report. analyzeSalesData (Some shop_data) reference_options = Inr report)
   \<and> plain_keys itemless_data \<and> record_without_items itemless_data
   \<and> analyzeSalesData (Some itemless_data) reference_options = Inl TypeError
   \<and> invalid_input None \<and> analyzeSalesData None reference_options = Inl InvalidInput
   \<and> invalid_configuration NoOptions
   \<and> analyzeSalesData (Some shop_data) NoOptions
        \<in> {Inl OptionsNotObject, Inl OptionsUndefined, Inl OptionsNotFunctions}"
proof -
  have a: "\<not> invalid_input (Some shop_data)" "\<not> invalid_configuration reference_options"
    "plain_keys shop_data" "\<not> record_without_items shop_data"
    "\<not> invalid_input (Some itemless_data)"
    "plain_keys itemless_data" "record_without_items itemless_data"
    "invalid_input None" "invalid_configuration NoOptions"
    by code_simp+
  from a analyzeSalesData_errors [of "Some shop_data" reference_options]
    analyzeSalesData_errors [of "Some itemless_data" reference_options]
    analyzeSalesData_errors [of None reference_options]
    analyzeSalesData_errors [of "Some shop_data" NoOptions]
  show ?thesis by (simp del: insert_iff)
qed

text \<open>
  C3, as the claim has it, fails: the input and the configuration are valid, the one
  purchase record of the seller \<open>s1\<close> has no \<open>items\<close>, and the call aborts with a
  \<open>TypeError\<close> inside the fold.
\<close>

theorem record_without_items_aborts:
  "\<not> invalid_input (Some itemless_data) \<and> \<not> invalid_configuration reference_options
   \<and> analyzeSalesData (Some itemless_data) reference_options = Inl TypeError"
  by code_simp

section \<open>Records of unknown sellers\<close>

text \<open>
  C4. A purchase record whose \<open>seller_id\<close> is \<open>toString\<close> matches no seller, but
  \<open>sellerIndex\<close> is a plain object and finds \<open>Object.prototype.toString\<close>: the record
  is not skipped, and its item of a known product throws a \<open>TypeError\<close>.
\<close>

theorem unknown_seller_named_toString_aborts:
  "analyzeSalesData (Some prototype_key_data) reference_options = Inl TypeError"
  by code_simp

section \<open>One report entry per seller\<close>



section \<open>The order of the report\<close>



section \<open>The sum of the revenues\<close>



section \<open>The top products\<close>




section \<open>Determinism\<close>



section \<open>The objects of the caller\<close>



end
